theory Spec2Isabelle
  imports Main "HOL-Library.Finite_Map"
begin

section \<open>Python values used by the pipeline\<close>

text \<open>
  A Python \<open>str\<close> is modelled as a \<open>string\<close>: each \<open>char\<close> stands for one code
  point below 256 (the Latin-1 range), so \<open>length\<close> is Python's \<open>len\<close> on such
  strings. The character classes below are Python's on that range.
\<close>

definition py_isspace :: "char \<Rightarrow> bool" where
  \<comment> \<open>the characters \<open>str.strip()\<close> removes: TAB..CR, FS..US, space, NEL, NBSP\<close>
  "py_isspace c =
     (let n = (of_char c :: nat)
      in (9 \<le> n \<and> n \<le> 13) \<or> (28 \<le> n \<and> n \<le> 32) \<or> n = 133 \<or> n = 160)"

definition strip :: "string \<Rightarrow> string" where
  \<comment> \<open>\<open>s.strip()\<close>\<close>
  "strip s = rev (dropWhile py_isspace (rev (dropWhile py_isspace s)))"

definition lower_char :: "char \<Rightarrow> char" where
  \<comment> \<open>\<open>A..Z\<close> and the Latin-1 capitals (all of \<open>0xC0..0xDE\<close> but the multiplication sign)\<close>
  "lower_char c =
     (let n = (of_char c :: nat)
      in if (65 \<le> n \<and> n \<le> 90) \<or> (192 \<le> n \<and> n \<le> 222 \<and> n \<noteq> 215)
         then char_of (n + 32) else c)"

definition lower :: "string \<Rightarrow> string" where
  \<comment> \<open>\<open>s.lower()\<close>\<close>
  "lower s = map lower_char s"

function str_nat :: "nat \<Rightarrow> string" where
  "str_nat n =
     (if n < 10 then [char_of (48 + n)]
      else str_nat (n div 10) @ [char_of (48 + n mod 10)])"
  by pat_completeness auto
termination
  by (relation "measure id") auto

definition str_int :: "int \<Rightarrow> string" where
  \<comment> \<open>\<open>str(i)\<close>, which is what an f-string field \<open>{i}\<close> inserts for an \<open>int\<close>\<close>
  "str_int i = (if i < 0 then CHR ''-'' # str_nat (nat (- i)) else str_nat (nat i))"

fun join :: "string \<Rightarrow> string list \<Rightarrow> string" where
  \<comment> \<open>\<open>sep.join(xs)\<close>\<close>
  "join sep [] = []"
| "join sep [x] = x"
| "join sep (x # y # ys) = x @ sep @ join sep (y # ys)"

text \<open>
  An instance of Python's \<open>Exception\<close>: its class name and \<open>str(e)\<close>. Every
  \<open>except\<close> clause of the modelled code catches \<open>Exception\<close>, so the class never
  selects a handler.
\<close>

datatype exn = Exn (exn_class: string) (exn_str: string)

definition try_except :: "exn + 'a \<Rightarrow> (exn \<Rightarrow> exn + 'a) \<Rightarrow> exn + 'a" where
  \<comment> \<open>\<open>try: body  except Exception as e: handler\<close>\<close>
  "try_except body handler = (case body of Inl e \<Rightarrow> handler e | Inr r \<Rightarrow> Inr r)"

section \<open>The AI-enhancement gate (agent_helper.py)\<close>

type_synonym environ = "string \<rightharpoonup> string"

definition getenv :: "environ \<Rightarrow> string \<Rightarrow> string \<Rightarrow> string" where
  \<comment> \<open>\<open>os.getenv(key, default)\<close>\<close>
  "getenv env key dflt = (case env key of None \<Rightarrow> dflt | Some v \<Rightarrow> v)"

definition is_ai_enhancement_enabled :: "environ \<Rightarrow> bool" where
  "is_ai_enhancement_enabled env =
     (lower (getenv env ''DISABLE_AI_ENHANCEMENT'' ''false'') \<noteq> ''true'')"

section \<open>Clustering and grouping (clustering.py)\<close>

text \<open>
  A Python \<open>float\<close> as data: a mantissa and a binary exponent (the value
  \<open>m * 2 ^ e\<close>), an infinity (\<open>True\<close> for the negative one) or NaN. No arithmetic on
  floats is modelled.
\<close>

datatype pyfloat = Finite int int | Infinity bool | NaN

text \<open>
  \<open>cluster_logs\<close> hands the embeddings to scikit-learn's \<open>DBSCAN(...).fit_predict\<close>
  with the cosine metric and returns its labels. The kernel is not code of the
  repository: it is a parameter that returns labels or raises. The defaults of
  the optional arguments are \<open>eps=0.3\<close> (the double \<open>5404319552844595 * 2 ^ -54\<close>)
  and \<open>min_samples=5\<close>.
\<close>

record dbscan =
  eps :: pyfloat
  min_samples :: int
  metric :: string

type_synonym kernel = "dbscan \<Rightarrow> pyfloat list list \<Rightarrow> exn + int list"

definition default_eps :: pyfloat where
  "default_eps = Finite 5404319552844595 (- 54)"

definition default_min_samples :: int where
  "default_min_samples = 5"

definition cluster_logs :: "kernel \<Rightarrow> pyfloat list list \<Rightarrow> pyfloat \<Rightarrow> int \<Rightarrow> exn + int list" where
  "cluster_logs fit_predict embeddings e m =
     (let dbscan = \<lparr>eps = e, min_samples = m, metric = ''cosine''\<rparr>;
          cluster_labels = fit_predict dbscan embeddings
      in cluster_labels)"

text \<open>
  \<open>group_logs_by_cluster\<close> fills a \<open>defaultdict(list)\<close>. The dictionary is an
  association list in insertion order with one entry per key: \<open>append_to\<close> is
  \<open>d[label].append(log)\<close>, which creates the entry at the end when the key is new.
  Python's \<open>zip\<close> stops at the shorter argument, as \<open>zip\<close> of HOL does.
\<close>

fun append_to :: "'k \<Rightarrow> 'a \<Rightarrow> ('k \<times> 'a list) list \<Rightarrow> ('k \<times> 'a list) list" where
  "append_to k v [] = [(k, [v])]"
| "append_to k v ((k', vs) # d) =
     (if k = k' then (k', vs @ [v]) # d else (k', vs) # append_to k v d)"

definition group_logs_by_cluster :: "'a list \<Rightarrow> int list \<Rightarrow> (int \<times> 'a list) list" where
  "group_logs_by_cluster logs labels =
     fold (\<lambda>(log, label) clustered_logs. append_to label log clustered_logs)
       (zip logs labels) []"

section \<open>Summarization (agent_helper.py)\<close>

subsection \<open>Parsed JSON\<close>

text \<open>
  What \<open>json.loads\<close> returns: \<open>None\<close>, \<open>bool\<close>, \<open>int\<close>, \<open>float\<close>, \<open>str\<close>, \<open>list\<close> or
  \<open>dict\<close> with \<open>str\<close> keys. The code only ever tests a parsed float for truth.
\<close>

datatype json =
    JNull
  | JBool bool
  | JInt int
  | JFloat pyfloat
  | JStr string
  | JArr "json list"
  | JObj "(string, json) fmap"

fun truthy :: "json \<Rightarrow> bool" where
  \<comment> \<open>\<open>bool(v)\<close>, the test \<open>not v\<close> negates\<close>
  "truthy JNull = False"
| "truthy (JBool b) = b"
| "truthy (JInt i) = (i \<noteq> 0)"
| "truthy (JFloat f) = (case f of Finite m e \<Rightarrow> m \<noteq> 0 | _ \<Rightarrow> True)"
| "truthy (JStr s) = (s \<noteq> [])"
| "truthy (JArr xs) = (xs \<noteq> [])"
| "truthy (JObj d) = (d \<noteq> fmempty)"

fun type_name :: "json \<Rightarrow> string" where
  "type_name JNull = ''NoneType''"
| "type_name (JBool b) = ''bool''"
| "type_name (JInt i) = ''int''"
| "type_name (JFloat f) = ''float''"
| "type_name (JStr s) = ''str''"
| "type_name (JArr xs) = ''list''"
| "type_name (JObj d) = ''dict''"

definition attribute_error :: "json \<Rightarrow> string \<Rightarrow> exn" where
  "attribute_error v a =
     Exn ''AttributeError''
       ([CHR 0x27] @ type_name v @ [CHR 0x27] @ '' object has no attribute '' @ [CHR 0x27] @ a @ [CHR 0x27])"

fun isinstance_dict :: "json \<Rightarrow> bool" where
  "isinstance_dict (JObj d) = True"
| "isinstance_dict v = False"

fun get :: "json \<Rightarrow> string \<Rightarrow> json \<Rightarrow> exn + json" where
  \<comment> \<open>\<open>v.get(key, default)\<close>: only a \<open>dict\<close> has the method\<close>
  "get (JObj d) key dflt = Inr (case fmlookup d key of None \<Rightarrow> dflt | Some x \<Rightarrow> x)"
| "get v key dflt = Inl (attribute_error v ''get'')"

fun getitem :: "json \<Rightarrow> string \<Rightarrow> exn + json" where
  \<comment> \<open>\<open>v[key]\<close> for a \<open>str\<close> key\<close>
  "getitem (JObj d) key =
     (case fmlookup d key of None \<Rightarrow> Inl (Exn ''KeyError'' key) | Some x \<Rightarrow> Inr x)"
| "getitem v key = Inl (Exn ''TypeError'' (type_name v))"

fun strip_method :: "json \<Rightarrow> exn + string" where
  \<comment> \<open>\<open>v.strip()\<close>: only a \<open>str\<close> has the method\<close>
  "strip_method (JStr s) = Inr (strip s)"
| "strip_method v = Inl (attribute_error v ''strip'')"

fun contains_key :: "json \<Rightarrow> string \<Rightarrow> bool" where
  \<comment> \<open>\<open>key in v\<close>, evaluated in the code only after \<open>isinstance(v, dict)\<close>\<close>
  "contains_key (JObj d) key = (key |\<in>| fmdom d)"
| "contains_key v key = False"

definition bind :: "exn + 'a \<Rightarrow> ('a \<Rightarrow> exn + 'b) \<Rightarrow> exn + 'b" where
  \<comment> \<open>sequencing: an exception raised by the first statement skips the rest\<close>
  "bind x f = (case x of Inl e \<Rightarrow> Inl e | Inr v \<Rightarrow> f v)"

subsection \<open>The outside world\<close>

text \<open>
  What the module reads from outside: the process environment, the Ollama client
  (construction may raise; \<open>invoke\<close> returns text or raises, and may depend on
  everything done with the client before), and \<open>json.loads\<close>, which returns the
  parsed value or raises. Each is a parameter: the theorems hold for every
  behaviour of them. The effects on the client are recorded in a trace.
\<close>

datatype event = Init string | Invoke string

record world =
  environ :: environ
  ollama_init :: "string \<Rightarrow> exn option"
  ollama_invoke :: "event list \<Rightarrow> string \<Rightarrow> exn + string"
  json_loads :: "string \<Rightarrow> exn + json"

definition DEFAULT_MODEL :: string where
  "DEFAULT_MODEL = ''llama3.2''"

record model =
  model_name :: string

definition model_new :: "world \<Rightarrow> string \<Rightarrow> event list \<Rightarrow> (exn + model) \<times> event list" where
  \<comment> \<open>\<open>LangchainOllamaLLMModel(model_name)\<close>: a failure is logged and raised again\<close>
  "model_new w name tr =
     (case ollama_init w name of
        None \<Rightarrow> Inr \<lparr>model_name = name\<rparr>
      | Some e \<Rightarrow> Inl e,
      tr @ [Init name])"

definition model_call :: "world \<Rightarrow> model \<Rightarrow> string \<Rightarrow> event list \<Rightarrow> (exn + string) \<times> event list" where
  \<comment> \<open>\<open>model(prompt)\<close>: a failure is logged and raised again\<close>
  "model_call w m prompt tr = (ollama_invoke w tr prompt, tr @ [Invoke prompt])"

subsection \<open>summarize_cluster\<close>

text \<open>
  The f-string prompts are given line by line, joined by newlines; the first and
  the last line are empty, as the triple-quoted literals begin and end with a
  newline. The calls to \<open>logger\<close> (some depending on the \<open>DEBUG\<close> variable) write
  to the log only and are left out.
\<close>

definition newline :: string where
  "newline = [CHR 0x0A]"

definition cluster_prompt :: "int \<Rightarrow> string list \<Rightarrow> string \<Rightarrow> string" where
  \<open>cluster_prompt cluster_id logs log_examples_text = join newline
     ['''',
      ''You are a professional log analyst. Analyze the following log entries from a cluster and provide a detailed analysis of the common patterns, issues, or themes. Based on the log content, assign a descriptive title to the cluster that reflects the type of logs it contains (e.g., 'Authentication Errors', 'Database Connection Issues', 'HTTP Request Failures').'',
      '''',
      ''Cluster ID: '' @ str_int cluster_id,
      ''Log Count: '' @ str_int (int (length logs)),
      ''Sample Logs:'',
      log_examples_text,
      '''',
      ''Provide a JSON response with:'',
      ''- cluster: A descriptive title for the cluster based on the type of logs (e.g., 'Authentication Errors', 'Database Connection Issues'). Ensure the title is concise and specific to the log content.'',
      ''- summary: A concise description of the common patterns or issues in the cluster.'',
      ''- problem: A specific problem description (if identifiable, else "General cluster pattern").'',
      ''- solution: Detailed resolution steps (if applicable, else "Review logs for further investigation.").'',
      '''',
      ''Return only the JSON object.'',
      '''']\<close>

record cluster_summary =
  cluster :: json
  summary :: json
  problem :: json
  solution :: json
  ai_summarized :: bool

definition fallback_summary :: "int \<Rightarrow> string list \<Rightarrow> cluster_summary" where
  \<comment> \<open>the dictionary literal of lines 103--109, repeated in lines 120--126\<close>
  "fallback_summary cluster_id logs =
     \<lparr>cluster = JStr (''Cluster '' @ str_int cluster_id),
      summary = JStr (''Cluster '' @ str_int cluster_id @ '' contains '' @ str_int (int (length logs))
                      @ '' logs with varied content.''),
      problem = JStr ''General cluster pattern'',
      solution = JStr ''Review logs for further investigation.'',
      ai_summarized = False\<rparr>"

definition summary_rejected :: "json \<Rightarrow> exn + bool" where
  \<comment> \<open>\<open>not parsed.get("summary") or len(parsed["summary"].strip()) < 20\<close>\<close>
  "summary_rejected parsed =
     bind (get parsed ''summary'' JNull) (\<lambda>s.
       if \<not> truthy s then Inr True
       else bind (getitem parsed ''summary'') (\<lambda>s'.
              bind (strip_method s') (\<lambda>t. Inr (length t < 20))))"

definition summarize_cluster_try ::
  "world \<Rightarrow> int \<Rightarrow> string list \<Rightarrow> exn + string \<Rightarrow> exn + cluster_summary" where
  \<comment> \<open>the body of the \<open>try\<close> (lines 92--117), given the outcome of \<open>model(prompt)\<close>\<close>
  "summarize_cluster_try w cluster_id logs outcome =
     bind outcome (\<lambda>response.
     bind (json_loads w (strip response)) (\<lambda>parsed.
     bind (summary_rejected parsed) (\<lambda>rejected.
       if rejected then Inr (fallback_summary cluster_id logs)
       else
         bind (get parsed ''cluster'' (JStr (''Cluster '' @ str_int cluster_id))) (\<lambda>c.
         bind (get parsed ''summary'' (JStr (''Cluster '' @ str_int cluster_id @ '' summary''))) (\<lambda>s.
         bind (get parsed ''problem'' (JStr ''General cluster pattern'')) (\<lambda>p.
         bind (get parsed ''solution'' (JStr ''Review logs for further investigation.'')) (\<lambda>l.
           Inr \<lparr>cluster = c, summary = s, problem = p, solution = l,
                ai_summarized = True\<rparr>)))))))"

definition sample_text :: "string list \<Rightarrow> string" where
  \<comment> \<open>lines 71--72: at most three lines of the cluster\<close>
  "sample_text logs =
     (let log_examples = take 3 logs
      in if log_examples \<noteq> [] then join newline log_examples else ''No logs available'')"

definition summarize_cluster ::
  "world \<Rightarrow> model \<Rightarrow> int \<Rightarrow> string list \<Rightarrow> event list \<Rightarrow> (exn + cluster_summary) \<times> event list" where
  "summarize_cluster w m cluster_id logs tr =
     (let prompt = cluster_prompt cluster_id logs (sample_text logs);
          (outcome, tr') = model_call w m prompt tr
      in (try_except (summarize_cluster_try w cluster_id logs outcome)
            (\<lambda>e. Inr (fallback_summary cluster_id logs)),
          tr'))"

subsection \<open>summarize_clusters\<close>

text \<open>
  An element of \<open>cluster_data\<close> is a dictionary with the keys \<open>cluster_id\<close>,
  \<open>log_count\<close> and \<open>logs\<close>, as the docstring says and as the caller builds it
  (\<open>int(cid)\<close>, \<open>len(logs)\<close>, the list of lines). With the three keys present the
  defaults of \<open>cluster.get("cluster_id", -1)\<close>, \<open>cluster.get("logs", [])\<close> and
  \<open>cluster.get("log_count", len(logs))\<close> are never used, and
  \<open>cluster.get('cluster', 'Unnamed Cluster')\<close> always gives its default.
  An element of the result's \<open>clusters\<close> has the keys of a \<open>cluster_summary\<close> and
  \<open>cluster_id\<close>, \<open>log_count\<close>, \<open>original_logs\<close>; the first two are renamed here, as
  the names are taken by the input. A key absent from the result dictionary is
  \<open>None\<close>.
\<close>

record cluster_entry =
  cluster_id :: int
  log_count :: int
  logs :: "string list"

record summarized_cluster = cluster_summary +
  out_cluster_id :: int
  out_log_count :: int
  original_logs :: "string list"

record result =
  alerts :: json
  clusters :: "summarized_cluster list"
  ai_enhancement_used :: bool
  ollama_model_used :: "string option"
  ai_error :: "string option"

definition basic_summary :: "cluster_entry \<Rightarrow> summarized_cluster" where
  \<comment> \<open>the dictionary literal of lines 144--153, repeated in lines 234--243\<close>
  "basic_summary c =
     \<lparr>cluster = JStr (''Cluster '' @ str_int (cluster_id c)),
      summary = JStr (''Cluster '' @ str_int (cluster_id c) @ '' contains '' @ str_int (log_count c)
                      @ '' logs with varied content.''),
      problem = JStr ''General cluster pattern'',
      solution = JStr ''Review logs for further investigation.'',
      ai_summarized = False,
      out_cluster_id = cluster_id c,
      out_log_count = log_count c,
      original_logs = logs c\<rparr>"

definition summarized :: "cluster_entry \<Rightarrow> cluster_summary \<Rightarrow> summarized_cluster" where
  \<comment> \<open>the dictionary appended in lines 174--183\<close>
  "summarized c summary_data =
     \<lparr>cluster = cluster summary_data,
      summary = summary summary_data,
      problem = problem summary_data,
      solution = solution summary_data,
      ai_summarized = ai_summarized summary_data,
      out_cluster_id = cluster_id c,
      out_log_count = log_count c,
      original_logs = logs c\<rparr>"

fun summarize_loop ::
  "world \<Rightarrow> model \<Rightarrow> cluster_entry list \<Rightarrow> summarized_cluster list \<Rightarrow> event list
     \<Rightarrow> (exn + summarized_cluster list) \<times> event list" where
  \<comment> \<open>the \<open>for\<close> loop of lines 166--183; the fourth argument is \<open>summarized_clusters\<close>\<close>
  "summarize_loop w m [] summarized_clusters tr = (Inr summarized_clusters, tr)"
| "summarize_loop w m (c # cs) summarized_clusters tr =
     (case summarize_cluster w m (cluster_id c) (logs c) tr of
        (Inl e, tr') \<Rightarrow> (Inl e, tr')
      | (Inr summary_data, tr') \<Rightarrow>
          summarize_loop w m cs (summarized_clusters @ [summarized c summary_data]) tr')"

definition all_logs_text :: "cluster_entry list \<Rightarrow> string" where
  "all_logs_text cluster_data =
     (let t = join newline
                (map (\<lambda>c. ''Cluster '' @ str_int (cluster_id c) @ '' (Unnamed Cluster):'' @ newline
                            @ join newline (take 3 (logs c)))
                   cluster_data)
      in if t \<noteq> [] then t else ''No logs available'')"

definition alerts_prompt :: "string \<Rightarrow> string" where
  "alerts_prompt logs_text = join newline
     ['''',
      ''You are a professional log analyst. Analyze the following log clusters to identify meaningful insights about the log file, such as critical issues, trends, anomalies, or other significant observations. Select a variable number of logs from the entire log file that provide valuable insights into system behavior or issues. For each selected log, provide an explanation of its significance and specific suggestions or actions to address or leverage the insight. Do not generate insights for individual clusters; instead, select logs from across all clusters to highlight the most relevant observations.'',
      '''',
      ''Log Clusters:'',
      logs_text,
      '''',
      ''Provide a JSON response as a list of objects, each containing:'',
      ''  - log: The specific log entry selected.'',
      ''  - explanation: A clear explanation of the significance of the log (e.g., issue, trend, or anomaly).'',
      ''  - suggestions: Specific suggestions or actions to address or leverage the insight.'',
      '''',
      ''Return only the JSON list.'',
      '''']"

fun alerts_valid :: "json \<Rightarrow> bool" where
  \<comment> \<open>the condition of lines 210--213\<close>
  "alerts_valid (JArr parsed_alerts) =
     (length parsed_alerts > 0 \<and>
      list_all (\<lambda>alert. isinstance_dict alert \<and>
                  list_all (\<lambda>key. contains_key alert key) [''log'', ''explanation'', ''suggestions''])
        parsed_alerts)"
| "alerts_valid v = False"

definition alerts_try :: "world \<Rightarrow> exn + string \<Rightarrow> exn + json" where
  \<comment> \<open>the body of the inner \<open>try\<close> (lines 208--216): the new value of \<open>alerts\<close>\<close>
  "alerts_try w outcome =
     bind outcome (\<lambda>alerts_response.
     bind (json_loads w (strip alerts_response)) (\<lambda>parsed_alerts.
       if alerts_valid parsed_alerts then Inr parsed_alerts
       else Inr (JStr ''No alerts identified'')))"

definition summarize_clusters_try ::
  "world \<Rightarrow> cluster_entry list \<Rightarrow> event list \<Rightarrow> (exn + result) \<times> event list" where
  \<comment> \<open>the body of the outer \<open>try\<close> (lines 161--227)\<close>
  "summarize_clusters_try w cluster_data tr =
     (case model_new w DEFAULT_MODEL tr of
        (Inl e, tr1) \<Rightarrow> (Inl e, tr1)
      | (Inr m, tr1) \<Rightarrow>
          (case summarize_loop w m cluster_data [] tr1 of
             (Inl e, tr2) \<Rightarrow> (Inl e, tr2)
           | (Inr summarized_clusters, tr2) \<Rightarrow>
               (let (outcome, tr3) = model_call w m (alerts_prompt (all_logs_text cluster_data)) tr2
                in (bind (try_except (alerts_try w outcome)
                            (\<lambda>e. Inr (JStr ''No alerts identified'')))
                      (\<lambda>a. Inr \<lparr>alerts = a,
                                 clusters = summarized_clusters,
                                 ai_enhancement_used = True,
                                 ollama_model_used = Some DEFAULT_MODEL,
                                 ai_error = None\<rparr>),
                    tr3))))"

definition summarize_clusters ::
  "world \<Rightarrow> cluster_entry list \<Rightarrow> event list \<Rightarrow> (exn + result) \<times> event list" where
  "summarize_clusters w cluster_data tr =
     (if \<not> is_ai_enhancement_enabled (environ w) then
        (Inr \<lparr>alerts = JStr ''No alerts identified'',
              clusters = map basic_summary cluster_data,
              ai_enhancement_used = False,
              ollama_model_used = None,
              ai_error = None\<rparr>,
         tr)
      else
        (let (body, tr') = summarize_clusters_try w cluster_data tr
         in (try_except body
               (\<lambda>e. Inr \<lparr>alerts = JStr ''No alerts identified'',
                          clusters = map basic_summary cluster_data,
                          ai_enhancement_used = False,
                          ollama_model_used = None,
                          ai_error = Some (exn_str e)\<rparr>),
             tr')))"

section \<open>Auxiliary definitions for the statements\<close>

text \<open>
  The acceptance rule in the words of the specification: the parsed response is an
  object whose \<open>summary\<close> is a string of at least 20 characters once stripped.
\<close>

fun accepted :: "json \<Rightarrow> bool" where
  "accepted (JObj d) =
     (case fmlookup d ''summary'' of Some (JStr s) \<Rightarrow> 20 \<le> length (strip s) | _ \<Rightarrow> False)"
| "accepted v = False"

text \<open>The prompt sent for one element of \<open>cluster_data\<close>.\<close>

definition entry_prompt :: "cluster_entry \<Rightarrow> string" where
  "entry_prompt c = cluster_prompt (cluster_id c) (logs c) (sample_text (logs c))"

text \<open>
  What \<open>summarize_cluster\<close> returns once the outcome of its provider call is
  known, and the trace after the prompts of some clusters have been sent.
\<close>

definition cluster_result :: "world \<Rightarrow> int \<Rightarrow> string list \<Rightarrow> exn + string \<Rightarrow> cluster_summary" where
  "cluster_result w cid lns outcome =
     (case summarize_cluster_try w cid lns outcome of
        Inl e \<Rightarrow> fallback_summary cid lns | Inr r \<Rightarrow> r)"

definition entry_trace :: "event list \<Rightarrow> cluster_entry list \<Rightarrow> event list" where
  "entry_trace tr cs = tr @ map (\<lambda>c. Invoke (entry_prompt c)) cs"

text \<open>The loop of \<open>group_logs_by_cluster\<close>, started from any dictionary.\<close>

definition group_into :: "('a \<times> int) list \<Rightarrow> (int \<times> 'a list) list \<Rightarrow> (int \<times> 'a list) list" where
  "group_into ps d = fold (\<lambda>(log, label) clustered_logs. append_to label log clustered_logs) ps d"

subsection \<open>Concrete inputs\<close>

text \<open>
  Worlds for the instances below. Each fixes what the provider answers and what
  \<open>json.loads\<close> returns for that answer; on any other text the parser of these
  worlds raises.
\<close>

definition timeout_world :: world where
  "timeout_world =
     \<lparr>environ = Map.empty,
      ollama_init = (\<lambda>name. None),
      ollama_invoke = (\<lambda>tr prompt. Inl (Exn ''TimeoutError'' ''timed out'')),
      json_loads = (\<lambda>s. Inl (Exn ''JSONDecodeError'' ''Expecting value''))\<rparr>"

definition short_response :: string where
  \<open>short_response = ''{"summary": "ok"}''\<close>

definition short_world :: world where
  "short_world =
     \<lparr>environ = Map.empty,
      ollama_init = (\<lambda>name. None),
      ollama_invoke = (\<lambda>tr prompt. Inr short_response),
      json_loads = (\<lambda>s. if s = short_response
                          then Inr (JObj (fmap_of_list [(''summary'', JStr ''ok'')]))
                          else Inl (Exn ''JSONDecodeError'' ''Expecting value''))\<rparr>"

definition partial_text :: string where
  \<open>partial_text = ''{"summary": "Repeated database timeouts on connect"}''\<close>

definition partial_response :: string where
  "partial_response = newline @ partial_text @ newline"

definition partial_loads :: "string \<Rightarrow> exn + json" where
  "partial_loads s =
     (if s = partial_text
      then Inr (JObj (fmap_of_list
             [(''summary'', JStr ''Repeated database timeouts on connect'')]))
      else Inl (Exn ''JSONDecodeError'' ''Expecting value''))"

definition partial_world :: world where
  "partial_world =
     \<lparr>environ = Map.empty,
      ollama_init = (\<lambda>name. None),
      ollama_invoke = (\<lambda>tr prompt. Inr partial_response),
      json_loads = partial_loads\<rparr>"

definition disabled_world :: world where
  "disabled_world =
     \<lparr>environ = [''DISABLE_AI_ENHANCEMENT'' \<mapsto> ''TRUE''],
      ollama_init = (\<lambda>name. None),
      ollama_invoke = (\<lambda>tr prompt. Inr partial_response),
      json_loads = partial_loads\<rparr>"

definition two_clusters :: "cluster_entry list" where
  "two_clusters =
     [\<lparr>cluster_id = - 1, log_count = 1, logs = [''INFO startup'']\<rparr>,
      \<lparr>cluster_id = 0, log_count = 2, logs = [''ERROR db timeout'', ''ERROR db timeout retry'']\<rparr>]"

definition flaky_world :: world where
  "flaky_world =
     \<lparr>environ = Map.empty,
      ollama_init = (\<lambda>name. None),
      ollama_invoke = (\<lambda>tr prompt. if tr = [Init DEFAULT_MODEL] then Inr partial_response
                                     else Inl (Exn ''TimeoutError'' ''timed out'')),
      json_loads = partial_loads\<rparr>"

definition singular_response :: string where
  \<open>singular_response = ''[{"log": "ERROR db timeout", "explanation": "database unreachable", "suggestion": "check the database"}]''\<close>

definition singular_world :: world where
  "singular_world =
     \<lparr>environ = Map.empty,
      ollama_init = (\<lambda>name. None),
      ollama_invoke = (\<lambda>tr prompt. Inr singular_response),
      json_loads = (\<lambda>s. if s = singular_response
                          then Inr (JArr [JObj (fmap_of_list
                                 [(''log'', JStr ''ERROR db timeout''),
                                  (''explanation'', JStr ''database unreachable''),
                                  (''suggestion'', JStr ''check the database'')])])
                          else Inl (Exn ''JSONDecodeError'' ''Expecting value''))\<rparr>"

definition plural_response :: string where
  \<open>plural_response = ''[{"log": "ERROR db timeout", "explanation": "database unreachable", "suggestions": "check the database"}]''\<close>

definition plural_world :: world where
  "plural_world =
     \<lparr>environ = Map.empty,
      ollama_init = (\<lambda>name. None),
      ollama_invoke = (\<lambda>tr prompt. Inr plural_response),
      json_loads = (\<lambda>s. if s = plural_response
                          then Inr (JArr [JObj (fmap_of_list
                                 [(''log'', JStr ''ERROR db timeout''),
                                  (''explanation'', JStr ''database unreachable''),
                                  (''suggestions'', JStr ''check the database'')])])
                          else Inl (Exn ''JSONDecodeError'' ''Expecting value''))\<rparr>"

text \<open>
  A clustering kernel that refuses an empty sample set, as the input validation of
  scikit-learn does (\<open>ValueError\<close>: a minimum of 1 sample is required). What it
  returns on other inputs plays no role below.
\<close>

definition refusing_kernel :: kernel where
  "refusing_kernel params vectors =
     (if vectors = []
      then Inl (Exn ''ValueError'' ''Found array with 0 sample(s) while a minimum of 1 is required by DBSCAN.'')
      else Inr (map (\<lambda>v. - 1) vectors))"

section \<open>Lemmas\<close>

lemmas char_eval = char_of_def bit_Suc_0_iff

subsection \<open>Lower-casing\<close>

lemma of_char_lower_char:
  "(of_char (lower_char c) :: nat) =
     (let n = of_char c in if (65 \<le> n \<and> n \<le> 90) \<or> (192 \<le> n \<and> n \<le> 222 \<and> n \<noteq> 215) then n + 32 else n)"
  by (simp add: lower_char_def Let_def of_char_of)

lemma char_eq_by_code: "c = d \<longleftrightarrow> (of_char c :: nat) = of_char d"
  by simp

lemma lower_char_is:
  assumes "(of_char d :: nat) = k" "97 \<le> k" "k \<le> 122"
  shows "lower_char c = d \<longleftrightarrow> (of_char c :: nat) = k \<or> (of_char c :: nat) = k - 32"
  unfolding char_eq_by_code [of "lower_char c" d] of_char_lower_char Let_def assms(1)
  using assms(2,3) by auto

lemma lower_char_t: "lower_char c = CHR ''t'' \<longleftrightarrow> c = CHR ''t'' \<or> c = CHR ''T''"
  by (subst lower_char_is [of _ 116]) (simp_all add: char_eq_by_code [of c])

lemma lower_char_r: "lower_char c = CHR ''r'' \<longleftrightarrow> c = CHR ''r'' \<or> c = CHR ''R''"
  by (subst lower_char_is [of _ 114]) (simp_all add: char_eq_by_code [of c])

lemma lower_char_u: "lower_char c = CHR ''u'' \<longleftrightarrow> c = CHR ''u'' \<or> c = CHR ''U''"
  by (subst lower_char_is [of _ 117]) (simp_all add: char_eq_by_code [of c])

lemma lower_char_e: "lower_char c = CHR ''e'' \<longleftrightarrow> c = CHR ''e'' \<or> c = CHR ''E''"
  by (subst lower_char_is [of _ 101]) (simp_all add: char_eq_by_code [of c])

lemma map_eq_four:
  "map f v = [p, q, r, s] \<longleftrightarrow>
     (\<exists>a b c d. v = [a, b, c, d] \<and> f a = p \<and> f b = q \<and> f c = r \<and> f d = s)"
  by (auto simp: map_eq_Cons_conv)

lemma lower_true_iff:
  "lower v = ''true'' \<longleftrightarrow>
     (\<exists>a b c d. v = [a, b, c, d] \<and> (a = CHR ''t'' \<or> a = CHR ''T'') \<and> (b = CHR ''r'' \<or> b = CHR ''R'')
        \<and> (c = CHR ''u'' \<or> c = CHR ''U'') \<and> (d = CHR ''e'' \<or> d = CHR ''E''))"
  unfolding lower_def map_eq_four lower_char_t lower_char_r lower_char_u lower_char_e ..

lemma lower_false: "lower ''false'' \<noteq> ''true''"
  by (simp add: lower_def)

lemma length_lower: "length (lower v) = length v"
  by (simp add: lower_def)

lemma lower_length_four: "length v \<noteq> 4 \<Longrightarrow> lower v \<noteq> ''true''"
  using length_lower [of v] by auto

lemma lower_TRUE: "lower ''true'' = ''true''" "lower ''True'' = ''true''" "lower ''TRUE'' = ''true''"
  by (simp_all add: lower_def lower_char_def char_eval)

lemma enabled_empty_environ: "is_ai_enhancement_enabled Map.empty"
  by (simp add: is_ai_enhancement_enabled_def getenv_def lower_def lower_char_def char_eval)

subsection \<open>Grouping\<close>

lemma map_of_append_to:
  "map_of (append_to k v d) l =
     (if l = k then Some ((case map_of d k of None \<Rightarrow> [] | Some vs \<Rightarrow> vs) @ [v]) else map_of d l)"
  by (induction d) auto

lemma keys_append_to:
  "map fst (append_to k v d) = (if k \<in> fst ` set d then map fst d else map fst d @ [k])"
  by (induction d) force+

lemma sum_append_to:
  "(\<Sum>p\<leftarrow>append_to k v d. length (snd p)) = Suc (\<Sum>p\<leftarrow>d. length (snd p))"
  by (induction d) auto

lemma group_into_simps: "group_into [] d = d" "group_into ((x, l) # ps) d = group_into ps (append_to l x d)"
  by (simp_all add: group_into_def)

lemma map_of_group_into:
  "map_of (group_into ps d) l =
     (if l \<in> snd ` set ps
      then Some ((case map_of d l of None \<Rightarrow> [] | Some vs \<Rightarrow> vs) @ map fst (filter (\<lambda>p. snd p = l) ps))
      else map_of d l)"
proof (induction ps arbitrary: d)
  case Nil
  then show ?case by (simp add: group_into_simps)
next
  case (Cons p ps)
  obtain x k where p: "p = (x, k)" by (cases p)
  show ?case unfolding p group_into_simps Cons.IH
    by (auto simp: map_of_append_to image_iff filter_empty_conv split: option.splits)
qed

lemma keys_group_into: "set (map fst (group_into ps d)) = set (map fst d) \<union> snd ` set ps"
proof (induction ps arbitrary: d)
  case Nil
  then show ?case by (simp add: group_into_simps)
next
  case (Cons p ps)
  obtain x k where p: "p = (x, k)" by (cases p)
  have "set (map fst (append_to k x d)) = insert k (set (map fst d))"
    by (auto simp: keys_append_to)
  then show ?case unfolding p group_into_simps Cons.IH by auto
qed

lemma distinct_group_into: "distinct (map fst d) \<Longrightarrow> distinct (map fst (group_into ps d))"
proof (induction ps arbitrary: d)
  case Nil
  then show ?case by (simp add: group_into_simps)
next
  case (Cons p ps)
  obtain x k where p: "p = (x, k)" by (cases p)
  have "distinct (map fst (append_to k x d))"
    using Cons.prems by (auto simp: keys_append_to)
  then show ?case unfolding p group_into_simps by (rule Cons.IH)
qed

lemma sum_group_into: "(\<Sum>p\<leftarrow>group_into ps d. length (snd p)) = (\<Sum>p\<leftarrow>d. length (snd p)) + length ps"
proof (induction ps arbitrary: d)
  case Nil
  then show ?case by (simp add: group_into_simps)
next
  case (Cons p ps)
  obtain x k where p: "p = (x, k)" by (cases p)
  show ?case unfolding p group_into_simps Cons.IH by (simp add: sum_append_to)
qed

lemma zip_as_map: "zip xs ys = map (\<lambda>i. (xs ! i, ys ! i)) [0..<min (length xs) (length ys)]"
  by (rule nth_equalityI) auto

lemma members_zip:
  "length ys = length xs \<Longrightarrow>
   map fst (filter (\<lambda>p. snd p = l) (zip xs ys)) = map ((!) xs) (filter (\<lambda>i. ys ! i = l) [0..<length xs])"
  by (simp add: zip_as_map filter_map comp_def)

lemma group_is_group_into: "group_logs_by_cluster lns labels = group_into (zip lns labels) []"
  by (simp add: group_logs_by_cluster_def group_into_def)

subsection \<open>Summarization\<close>

lemma strip_partial_response: "strip partial_response = partial_text"
  by (simp add: partial_response_def partial_text_def newline_def strip_def py_isspace_def)

lemma partial_loads_response:
  "partial_loads (strip partial_response) =
     Inr (JObj (fmap_of_list [(''summary'', JStr ''Repeated database timeouts on connect'')]))"
  by (simp add: strip_partial_response partial_loads_def)

lemma bind_simps [simp]: "bind (Inl e) f = Inl e" "bind (Inr v) f = f v"
  by (simp_all add: bind_def)

lemma try_except_simps [simp]: "try_except (Inl e) h = h e" "try_except (Inr v) h = Inr v"
  by (simp_all add: try_except_def)

lemma summary_rejected_obj:
  "summary_rejected (JObj d) =
     (case fmlookup d ''summary'' of
        None \<Rightarrow> Inr True
      | Some v \<Rightarrow> if \<not> truthy v then Inr True
                  else (case v of JStr s \<Rightarrow> Inr (length (strip s) < 20)
                        | _ \<Rightarrow> Inl (attribute_error v ''strip'')))"
  by (cases "fmlookup d ''summary''"; cases "the (fmlookup d ''summary'')")
     (simp_all add: summary_rejected_def)

lemma summary_rejected_accepted:
  "accepted parsed \<Longrightarrow> summary_rejected parsed = Inr False"
  by (cases parsed) (auto simp: summary_rejected_obj strip_def split: option.splits json.splits)

lemma summary_rejected_not_accepted:
  "\<not> accepted parsed \<Longrightarrow> summary_rejected parsed = Inr True \<or> (\<exists>e. summary_rejected parsed = Inl e)"
  by (cases parsed) (auto simp: summary_rejected_obj summary_rejected_def split: option.splits json.splits)

lemma try_rejected:
  assumes "outcome = Inr response" "json_loads w (strip response) = Inr parsed" "\<not> accepted parsed"
  shows "try_except (summarize_cluster_try w cid lns outcome) (\<lambda>e. Inr (fallback_summary cid lns))
          = Inr (fallback_summary cid lns)"
  using summary_rejected_not_accepted [OF assms(3)] assms(1,2)
  by (auto simp: summarize_cluster_try_def)

lemma try_accepted:
  assumes "outcome = Inr response" "json_loads w (strip response) = Inr (JObj d)"
    and "fmlookup d ''summary'' = Some (JStr s)" "20 \<le> length (strip s)"
  shows "summarize_cluster_try w cid lns outcome =
     Inr \<lparr>cluster = (case fmlookup d ''cluster'' of None \<Rightarrow> JStr (''Cluster '' @ str_int cid) | Some v \<Rightarrow> v),
          summary = JStr s,
          problem = (case fmlookup d ''problem'' of None \<Rightarrow> JStr ''General cluster pattern'' | Some v \<Rightarrow> v),
          solution = (case fmlookup d ''solution'' of None \<Rightarrow> JStr ''Review logs for further investigation.'' | Some v \<Rightarrow> v),
          ai_summarized = True\<rparr>"
proof -
  have "accepted (JObj d)" using assms(3,4) by simp
  then have "summary_rejected (JObj d) = Inr False" by (rule summary_rejected_accepted)
  then show ?thesis using assms by (simp add: summarize_cluster_try_def split: option.split)
qed

lemma summarize_cluster_unfold:
  "summarize_cluster w m cid lns tr =
     (try_except (summarize_cluster_try w cid lns
                    (ollama_invoke w tr (cluster_prompt cid lns (sample_text lns))))
        (\<lambda>e. Inr (fallback_summary cid lns)),
      tr @ [Invoke (cluster_prompt cid lns (sample_text lns))])"
  by (simp add: summarize_cluster_def model_call_def Let_def)


lemma summarize_cluster_result:
  "summarize_cluster w m cid lns tr =
     (Inr (cluster_result w cid lns (ollama_invoke w tr (cluster_prompt cid lns (sample_text lns)))),
      tr @ [Invoke (cluster_prompt cid lns (sample_text lns))])"
  by (simp add: summarize_cluster_unfold cluster_result_def try_except_def split: sum.split)

lemma summarize_loop_eq:
  "summarize_loop w m cs acc tr =
     (Inr (acc @ map (\<lambda>i. summarized (cs ! i)
                        (cluster_result w (cluster_id (cs ! i)) (logs (cs ! i))
                           (ollama_invoke w (entry_trace tr (take i cs)) (entry_prompt (cs ! i)))))
                  [0..<length cs]),
      entry_trace tr cs)"
proof (induction cs arbitrary: acc tr)
  case Nil
  then show ?case by (simp add: entry_trace_def)
next
  case (Cons c cs)
  have tr: "entry_trace (tr @ [Invoke (entry_prompt c)]) xs = entry_trace tr (c # xs)" for xs
    by (simp add: entry_trace_def)
  have idx: "[0..<length (c # cs)] = 0 # map Suc [0..<length cs]"
    by (simp add: upt_conv_Cons map_Suc_upt del: upt_Suc)
  show ?case
    unfolding idx
    by (simp add: summarize_cluster_result Cons.IH tr entry_prompt_def [symmetric] comp_def
        del: upt_Suc)
      (simp add: entry_trace_def)
qed

lemma summarize_clusters_enabled:
  assumes "is_ai_enhancement_enabled (environ w)" "ollama_init w DEFAULT_MODEL = None"
  shows "summarize_clusters w cd tr =
     (Inr \<lparr>alerts =
             (case alerts_try w (ollama_invoke w (entry_trace (tr @ [Init DEFAULT_MODEL]) cd)
                                   (alerts_prompt (all_logs_text cd))) of
                Inl e \<Rightarrow> JStr ''No alerts identified'' | Inr a \<Rightarrow> a),
           clusters =
             map (\<lambda>i. summarized (cd ! i)
                    (cluster_result w (cluster_id (cd ! i)) (logs (cd ! i))
                       (ollama_invoke w (entry_trace (tr @ [Init DEFAULT_MODEL]) (take i cd))
                          (entry_prompt (cd ! i)))))
               [0..<length cd],
           ai_enhancement_used = True,
           ollama_model_used = Some DEFAULT_MODEL,
           ai_error = None\<rparr>,
      entry_trace (tr @ [Init DEFAULT_MODEL]) cd @ [Invoke (alerts_prompt (all_logs_text cd))])"
  using assms
  by (simp add: summarize_clusters_def summarize_clusters_try_def model_new_def model_call_def
      summarize_loop_eq try_except_def split: sum.split)

lemma summarize_clusters_init_fails:
  assumes "is_ai_enhancement_enabled (environ w)" "ollama_init w DEFAULT_MODEL = Some e"
  shows "summarize_clusters w cd tr =
     (Inr \<lparr>alerts = JStr ''No alerts identified'',
           clusters = map basic_summary cd,
           ai_enhancement_used = False,
           ollama_model_used = None,
           ai_error = Some (exn_str e)\<rparr>,
      tr @ [Init DEFAULT_MODEL])"
  using assms
  by (simp add: summarize_clusters_def summarize_clusters_try_def model_new_def)

lemma alerts_valid_iff:
  "alerts_valid v \<longleftrightarrow>
     (\<exists>xs. v = JArr xs \<and> xs \<noteq> [] \<and>
        (\<forall>a\<in>set xs. \<exists>d. a = JObj d \<and> ''log'' |\<in>| fmdom d \<and> ''explanation'' |\<in>| fmdom d
                          \<and> ''suggestions'' |\<in>| fmdom d))"
proof (cases v)
  case (JArr xs)
  have "(isinstance_dict a \<and> list_all (contains_key a) [''log'', ''explanation'', ''suggestions'']) \<longleftrightarrow>
        (\<exists>d. a = JObj d \<and> ''log'' |\<in>| fmdom d \<and> ''explanation'' |\<in>| fmdom d \<and> ''suggestions'' |\<in>| fmdom d)"
    for a by (cases a) simp_all
  then show ?thesis using JArr by (simp add: list_all_iff)
qed simp_all

section \<open>The gate\<close>

text \<open>
  C10. The gate reports enhancement as disabled exactly when the environment has
  \<open>DISABLE_AI_ENHANCEMENT\<close> set to a value whose lower-casing is \<open>true\<close>. Unset, it
  is enabled, and so it is for \<open>1\<close>, \<open>yes\<close>, \<open>True\<close> followed by a space, \<open>false\<close> and
  the empty string; \<open>true\<close>, \<open>True\<close> and \<open>TRUE\<close> disable it.
\<close>

theorem gate_disabled_iff_true:
  "(\<not> is_ai_enhancement_enabled env \<longleftrightarrow>
      (\<exists>v. env ''DISABLE_AI_ENHANCEMENT'' = Some v \<and> lower v = ''true'')) \<and>
   (env ''DISABLE_AI_ENHANCEMENT'' = None \<longrightarrow> is_ai_enhancement_enabled env) \<and>
   (env ''DISABLE_AI_ENHANCEMENT'' \<in> {Some ''1'', Some ''yes'', Some ''True '', Some ''false'', Some []}
      \<longrightarrow> is_ai_enhancement_enabled env) \<and>
   (env ''DISABLE_AI_ENHANCEMENT'' \<in> {Some ''true'', Some ''True'', Some ''TRUE''}
      \<longrightarrow> \<not> is_ai_enhancement_enabled env)"
proof -
  have main: "\<not> is_ai_enhancement_enabled env \<longleftrightarrow>
      (\<exists>v. env ''DISABLE_AI_ENHANCEMENT'' = Some v \<and> lower v = ''true'')"
    by (cases "env ''DISABLE_AI_ENHANCEMENT''")
       (simp_all add: is_ai_enhancement_enabled_def getenv_def lower_false)
  have unset: "is_ai_enhancement_enabled env" if "env ''DISABLE_AI_ENHANCEMENT'' = None"
    using that main by simp
  have other: "is_ai_enhancement_enabled env"
    if "env ''DISABLE_AI_ENHANCEMENT'' \<in> {Some ''1'', Some ''yes'', Some ''True '', Some ''false'', Some []}"
  proof -
    from that obtain v where v: "env ''DISABLE_AI_ENHANCEMENT'' = Some v" "length v \<noteq> 4"
      by (elim insertE emptyE) simp_all
    from lower_length_four [OF v(2)] v(1) main show ?thesis by simp
  qed
  have true: "\<not> is_ai_enhancement_enabled env"
    if "env ''DISABLE_AI_ENHANCEMENT'' \<in> {Some ''true'', Some ''True'', Some ''TRUE''}"
  proof -
    from that obtain v where "env ''DISABLE_AI_ENHANCEMENT'' = Some v" "lower v = ''true''"
      by (elim insertE emptyE) (simp_all add: lower_TRUE)
    with main show ?thesis by blast
  qed
  show ?thesis using main unset other true by blast
qed

theorem gate_disabled_iff_true_witness:
  "is_ai_enhancement_enabled Map.empty \<and>
   is_ai_enhancement_enabled [''DISABLE_AI_ENHANCEMENT'' \<mapsto> ''True ''] \<and>
   is_ai_enhancement_enabled [''DISABLE_AI_ENHANCEMENT'' \<mapsto> ''1''] \<and>
   is_ai_enhancement_enabled [''DISABLE_AI_ENHANCEMENT'' \<mapsto> ''yes''] \<and>
   \<not> is_ai_enhancement_enabled [''DISABLE_AI_ENHANCEMENT'' \<mapsto> ''True'']"
proof -
  note g = gate_disabled_iff_true
  have unset: "Map.empty ''DISABLE_AI_ENHANCEMENT'' = None \<longrightarrow> is_ai_enhancement_enabled Map.empty"
    using g [of Map.empty] by blast
  have other: "[''DISABLE_AI_ENHANCEMENT'' \<mapsto> v] ''DISABLE_AI_ENHANCEMENT''
        \<in> {Some ''1'', Some ''yes'', Some ''True '', Some ''false'', Some []}
      \<longrightarrow> is_ai_enhancement_enabled [''DISABLE_AI_ENHANCEMENT'' \<mapsto> v]" for v
    using g [of "[''DISABLE_AI_ENHANCEMENT'' \<mapsto> v]"] by blast
  have true: "[''DISABLE_AI_ENHANCEMENT'' \<mapsto> v] ''DISABLE_AI_ENHANCEMENT''
        \<in> {Some ''true'', Some ''True'', Some ''TRUE''}
      \<longrightarrow> \<not> is_ai_enhancement_enabled [''DISABLE_AI_ENHANCEMENT'' \<mapsto> v]" for v
    using g [of "[''DISABLE_AI_ENHANCEMENT'' \<mapsto> v]"] by blast
  have 1: "is_ai_enhancement_enabled Map.empty"
    using unset by simp
  have 2: "is_ai_enhancement_enabled [''DISABLE_AI_ENHANCEMENT'' \<mapsto> ''True '']"
    by (rule other [THEN mp]) simp
  have 3: "is_ai_enhancement_enabled [''DISABLE_AI_ENHANCEMENT'' \<mapsto> ''1'']"
    by (rule other [THEN mp]) simp
  have 4: "is_ai_enhancement_enabled [''DISABLE_AI_ENHANCEMENT'' \<mapsto> ''yes'']"
    by (rule other [THEN mp]) simp
  have 5: "\<not> is_ai_enhancement_enabled [''DISABLE_AI_ENHANCEMENT'' \<mapsto> ''True'']"
    by (rule true [THEN mp]) simp
  show ?thesis using 1 2 3 4 5 by (intro conjI)
qed

section \<open>Clustering and grouping\<close>

text \<open>
  C9, as amended. Applied to an empty sequence of embeddings, \<open>cluster_logs\<close> has
  no case of its own: it returns an empty label sequence exactly when the
  clustering kernel returns one for the empty sequence, and it raises what the
  kernel raises.
\<close>

theorem cluster_logs_empty_is_kernel:
  "(cluster_logs fit_predict [] e m = Inr [] \<longleftrightarrow>
      fit_predict \<lparr>eps = e, min_samples = m, metric = ''cosine''\<rparr> [] = Inr []) \<and>
   (\<forall>x. fit_predict \<lparr>eps = e, min_samples = m, metric = ''cosine''\<rparr> [] = Inl x \<longrightarrow>
        cluster_logs fit_predict [] e m = Inl x)"
  by (simp add: cluster_logs_def)

theorem cluster_logs_empty_is_kernel_witness:
  "refusing_kernel \<lparr>eps = default_eps, min_samples = default_min_samples, metric = ''cosine''\<rparr> []
     = Inl (Exn ''ValueError'' ''Found array with 0 sample(s) while a minimum of 1 is required by DBSCAN.'') \<and>
   cluster_logs refusing_kernel [] default_eps default_min_samples
     = Inl (Exn ''ValueError'' ''Found array with 0 sample(s) while a minimum of 1 is required by DBSCAN.'')"
  using cluster_logs_empty_is_kernel [of refusing_kernel default_eps default_min_samples]
  by (simp add: refusing_kernel_def)

text \<open>
  C9 as stated fails with a kernel that refuses an empty sample set: the error
  reaches the caller of \<open>cluster_logs\<close>.
\<close>

theorem cluster_logs_empty_counterexample:
  "cluster_logs refusing_kernel [] default_eps default_min_samples \<noteq> Inr []"
  by (simp add: cluster_logs_def refusing_kernel_def)

text \<open>
  C7. With as many labels as lines, the grouping has one entry per label that
  occurs, and the members of the entry of label \<open>l\<close> are the lines at exactly the
  positions labelled \<open>l\<close>, in order: every position is in the entry of its own
  label and in no other. The member counts add up to the number of lines, and the
  noise label \<open>-1\<close>, when it occurs, has an entry like any other label.
\<close>

theorem group_partitions_lines:
  assumes "length labels = length lns"
  shows "distinct (map fst (group_logs_by_cluster lns labels)) \<and>
         fst ` set (group_logs_by_cluster lns labels) = set labels \<and>
         (\<forall>(l, members) \<in> set (group_logs_by_cluster lns labels).
             members = map ((!) lns) (filter (\<lambda>i. labels ! i = l) [0..<length lns])) \<and>
         (\<Sum>(l, members) \<leftarrow> group_logs_by_cluster lns labels. length members) = length lns \<and>
         (- 1 \<in> set labels \<longrightarrow>
            (\<exists>members. (- 1, members) \<in> set (group_logs_by_cluster lns labels) \<and> members \<noteq> []))"
proof -
  let ?G = "group_logs_by_cluster lns labels"
  have zl: "snd ` set (zip lns labels) = set labels"
    using assms by (metis map_snd_zip set_map)
  have d: "distinct (map fst ?G)"
    unfolding group_is_group_into by (rule distinct_group_into) simp
  have k: "fst ` set ?G = set labels"
    using keys_group_into [of "zip lns labels" "[]"] zl by (simp add: group_is_group_into)
  have m: "map_of ?G l = Some (map ((!) lns) (filter (\<lambda>i. labels ! i = l) [0..<length lns]))"
    if "l \<in> set labels" for l
    using that zl by (simp add: group_is_group_into map_of_group_into members_zip [OF assms])
  have e: "members = map ((!) lns) (filter (\<lambda>i. labels ! i = l) [0..<length lns])"
    if "(l, members) \<in> set ?G" for l members
  proof -
    from that have "l \<in> set labels" using k by force
    moreover from that d have "map_of ?G l = Some members" by simp
    ultimately show ?thesis using m by simp
  qed
  have s: "(\<Sum>(l, members) \<leftarrow> ?G. length members) = length lns"
    using sum_group_into [of "zip lns labels" "[]"] assms
    by (simp add: group_is_group_into case_prod_unfold)
  have n: "\<exists>members. (- 1, members) \<in> set ?G \<and> members \<noteq> []" if "- 1 \<in> set labels"
  proof -
    from that k obtain members where i: "(- 1, members) \<in> set ?G" by force
    from that obtain j where j: "j < length labels" "labels ! j = - 1"
      by (auto simp: in_set_conv_nth)
    have "j \<in> set (filter (\<lambda>i. labels ! i = - 1) [0..<length lns])"
      using j assms by simp
    then have "filter (\<lambda>i. labels ! i = - 1) [0..<length lns] \<noteq> []" by force
    with e [OF i] have "members \<noteq> []" by simp
    with i show ?thesis by blast
  qed
  show ?thesis using d k e s n by blast
qed

theorem group_partitions_lines_witness:
  "length [0, - 1, 0 :: int] = length [''ERROR db timeout'', ''INFO startup'', ''ERROR db timeout retry''] \<and>
   group_logs_by_cluster [''ERROR db timeout'', ''INFO startup'', ''ERROR db timeout retry''] [0, - 1, 0]
     = [(0, [''ERROR db timeout'', ''ERROR db timeout retry'']), (- 1, [''INFO startup''])] \<and>
   (\<Sum>(l, members) \<leftarrow> group_logs_by_cluster
        [''ERROR db timeout'', ''INFO startup'', ''ERROR db timeout retry''] [0, - 1, 0].
      length members) = 3"
  using group_partitions_lines
    [of "[0, - 1, 0]" "[''ERROR db timeout'', ''INFO startup'', ''ERROR db timeout retry'']"]
  by (simp add: group_logs_by_cluster_def)

text \<open>
  C8, as amended. \<open>group_logs_by_cluster\<close> has no check of the two lengths and
  raises nothing: it groups the pairs up to the shorter of the two sequences, so
  when the lengths differ the member counts add up to less than the longer one.
\<close>

theorem group_truncates_mismatch:
  "group_logs_by_cluster lns labels =
     group_logs_by_cluster (take (min (length lns) (length labels)) lns)
       (take (min (length lns) (length labels)) labels) \<and>
   (\<Sum>(l, members) \<leftarrow> group_logs_by_cluster lns labels. length members)
     = min (length lns) (length labels) \<and>
   (length labels \<noteq> length lns \<longrightarrow>
      (\<Sum>(l, members) \<leftarrow> group_logs_by_cluster lns labels. length members)
        < max (length lns) (length labels))"
proof -
  have z: "zip (take (min (length lns) (length labels)) lns)
               (take (min (length lns) (length labels)) labels) = zip lns labels"
    by (simp add: take_zip [symmetric])
  have s: "(\<Sum>(l, members) \<leftarrow> group_logs_by_cluster lns labels. length members)
     = min (length lns) (length labels)"
    using sum_group_into [of "zip lns labels" "[]"] by (simp add: group_is_group_into case_prod_unfold)
  show ?thesis unfolding s by (auto simp: group_logs_by_cluster_def z)
qed

theorem group_truncates_mismatch_witness:
  "length [0 :: int] \<noteq> length [''first line'', ''second line''] \<and>
   (\<Sum>(l, members) \<leftarrow> group_logs_by_cluster [''first line'', ''second line''] [0].
      length members) < max (length [''first line'', ''second line'']) (length [0 :: int])"
  using group_truncates_mismatch [of "[''first line'', ''second line'']" "[0]"]
  by (simp add: group_logs_by_cluster_def)


text \<open>
  C8 as stated fails: with two lines and one label the grouping returns a
  dictionary without the second line.
\<close>

theorem group_mismatch_counterexample:
  "length [0 :: int] \<noteq> length [''first line'', ''second line''] \<and>
   group_logs_by_cluster [''first line'', ''second line''] [0] = [(0, [''first line''])]"
  by (simp add: group_logs_by_cluster_def)

section \<open>Per-cluster summarization\<close>

text \<open>
  C2. \<open>summarize_cluster\<close> never raises: whatever the provider and \<open>json.loads\<close> do,
  it returns a record, after exactly one provider call. The record is either
  marked \<open>ai_summarized\<close> or it is the fallback record, whose fields are built from
  the cluster id and the number of lines only; it is the fallback whenever the
  provider call raises, the response is not JSON, or the parsed value is not an
  object.
\<close>

theorem summarize_cluster_never_raises:
  "\<exists>r. summarize_cluster w m cid lns tr =
         (Inr r, tr @ [Invoke (cluster_prompt cid lns (sample_text lns))]) \<and>
       (let outcome = ollama_invoke w tr (cluster_prompt cid lns (sample_text lns));
            fb = \<lparr>cluster = JStr (''Cluster '' @ str_int cid),
                  summary = JStr (''Cluster '' @ str_int cid @ '' contains ''
                              @ str_int (int (length lns)) @ '' logs with varied content.''),
                  problem = JStr ''General cluster pattern'',
                  solution = JStr ''Review logs for further investigation.'',
                  ai_summarized = False\<rparr>
        in (ai_summarized r \<or> r = fb) \<and>
           ((\<exists>e. outcome = Inl e) \<longrightarrow> r = fb) \<and>
           (\<forall>response. outcome = Inr response \<longrightarrow>
              (\<exists>e. json_loads w (strip response) = Inl e) \<longrightarrow> r = fb) \<and>
           (\<forall>response v. outcome = Inr response \<longrightarrow>
              json_loads w (strip response) = Inr v \<longrightarrow> \<not> isinstance_dict v \<longrightarrow> r = fb))"
proof -
  let ?outcome = "ollama_invoke w tr (cluster_prompt cid lns (sample_text lns))"
  let ?r = "cluster_result w cid lns ?outcome"
  have fb: "fallback_summary cid lns =
      \<lparr>cluster = JStr (''Cluster '' @ str_int cid),
       summary = JStr (''Cluster '' @ str_int cid @ '' contains ''
                   @ str_int (int (length lns)) @ '' logs with varied content.''),
       problem = JStr ''General cluster pattern'',
       solution = JStr ''Review logs for further investigation.'',
       ai_summarized = False\<rparr>"
    by (simp add: fallback_summary_def)
  have 1: "ai_summarized ?r \<or> ?r = fallback_summary cid lns"
    by (auto simp: cluster_result_def summarize_cluster_try_def bind_def
        split: sum.splits if_splits)
  have 2: "?r = fallback_summary cid lns" if "?outcome = Inl e" for e
    using that by (simp add: cluster_result_def summarize_cluster_try_def)
  have 3: "?r = fallback_summary cid lns"
    if "?outcome = Inr response" "json_loads w (strip response) = Inl e" for response e
    using that by (simp add: cluster_result_def summarize_cluster_try_def)
  have 4: "?r = fallback_summary cid lns"
    if "?outcome = Inr response" "json_loads w (strip response) = Inr v" "\<not> isinstance_dict v"
    for response v
  proof -
    have "\<not> accepted v" using that(3) by (cases v) simp_all
    from try_rejected [OF that(1,2) this, of cid lns]
    show ?thesis by (simp add: cluster_result_def try_except_def split: sum.splits)
  qed
  show ?thesis
    unfolding summarize_cluster_result Let_def fb [symmetric]
    using 1 2 3 4 by blast
qed

theorem summarize_cluster_never_raises_witness:
  "ollama_invoke timeout_world [] (cluster_prompt 3 [''db timeout'', ''db timeout retry'']
       (sample_text [''db timeout'', ''db timeout retry''])) = Inl (Exn ''TimeoutError'' ''timed out'') \<and>
   fst (summarize_cluster timeout_world \<lparr>model_name = DEFAULT_MODEL\<rparr> 3
          [''db timeout'', ''db timeout retry''] []) =
     Inr \<lparr>cluster = JStr ''Cluster 3'',
          summary = JStr ''Cluster 3 contains 2 logs with varied content.'',
          problem = JStr ''General cluster pattern'',
          solution = JStr ''Review logs for further investigation.'',
          ai_summarized = False\<rparr>"
  using summarize_cluster_never_raises [of timeout_world "\<lparr>model_name = DEFAULT_MODEL\<rparr>" 3
      "[''db timeout'', ''db timeout retry'']" "[]"]
  by (auto simp: timeout_world_def Let_def str_int_def char_eval)

text \<open>
  C3. When the provider answers but the response does not parse, or parses to an
  object without \<open>summary\<close>, or with a \<open>summary\<close> string shorter than 20 characters
  once stripped (the empty string included), \<open>summarize_cluster\<close> returns the
  fallback record with \<open>ai_summarized = False\<close>. The instance after the theorem is
  the response \<open>{"summary": "ok"}\<close>.
\<close>

theorem summarize_cluster_rejects:
  assumes "ollama_invoke w tr (cluster_prompt cid lns (sample_text lns)) = Inr response"
    and "(\<exists>e. json_loads w (strip response) = Inl e) \<or>
         (\<exists>d. json_loads w (strip response) = Inr (JObj d) \<and>
              (fmlookup d ''summary'' = None \<or>
               (\<exists>s. fmlookup d ''summary'' = Some (JStr s) \<and> length (strip s) < 20)))"
  shows "summarize_cluster w m cid lns tr =
     (Inr \<lparr>cluster = JStr (''Cluster '' @ str_int cid),
           summary = JStr (''Cluster '' @ str_int cid @ '' contains ''
                       @ str_int (int (length lns)) @ '' logs with varied content.''),
           problem = JStr ''General cluster pattern'',
           solution = JStr ''Review logs for further investigation.'',
           ai_summarized = False\<rparr>,
      tr @ [Invoke (cluster_prompt cid lns (sample_text lns))])"
proof -
  let ?body = "summarize_cluster_try w cid lns (Inr response)"
  have "try_except ?body (\<lambda>e. Inr (fallback_summary cid lns)) = Inr (fallback_summary cid lns)"
    using assms(2)
  proof (elim disjE exE conjE)
    fix e assume "json_loads w (strip response) = Inl e"
    then show ?thesis by (simp add: summarize_cluster_try_def)
  next
    fix d assume d: "json_loads w (strip response) = Inr (JObj d)" and "fmlookup d ''summary'' = None"
    then have "\<not> accepted (JObj d)" by simp
    from try_rejected [OF refl d this] show ?thesis .
  next
    fix d s assume d: "json_loads w (strip response) = Inr (JObj d)"
      and "fmlookup d ''summary'' = Some (JStr s)" "length (strip s) < 20"
    then have "\<not> accepted (JObj d)" by simp
    from try_rejected [OF refl d this] show ?thesis .
  qed
  then show ?thesis
    by (simp add: summarize_cluster_unfold assms(1) fallback_summary_def)
qed

theorem summarize_cluster_rejects_witness:
  "ollama_invoke short_world [] (cluster_prompt 7 [''INFO startup''] (sample_text [''INFO startup'']))
     = Inr short_response \<and>
   json_loads short_world (strip short_response) = Inr (JObj (fmap_of_list [(''summary'', JStr ''ok'')])) \<and>
   fmlookup (fmap_of_list [(''summary'', JStr ''ok'')]) ''summary'' = Some (JStr ''ok'') \<and>
   length (strip ''ok'') < 20 \<and>
   fst (summarize_cluster short_world \<lparr>model_name = DEFAULT_MODEL\<rparr> 7 [''INFO startup''] []) =
     Inr \<lparr>cluster = JStr ''Cluster 7'',
          summary = JStr ''Cluster 7 contains 1 logs with varied content.'',
          problem = JStr ''General cluster pattern'',
          solution = JStr ''Review logs for further investigation.'',
          ai_summarized = False\<rparr>"
proof -
  have r: "ollama_invoke short_world [] (cluster_prompt 7 [''INFO startup''] (sample_text [''INFO startup'']))
     = Inr short_response"
    by (simp add: short_world_def)
  have s: "strip short_response = short_response"
    by (simp add: short_response_def strip_def py_isspace_def)
  have l: "json_loads short_world (strip short_response) = Inr (JObj (fmap_of_list [(''summary'', JStr ''ok'')]))"
    by (simp add: s) (simp add: short_world_def)
  have k: "fmlookup (fmap_of_list [(''summary'', JStr ''ok'')]) ''summary'' = Some (JStr ''ok'')"
    by simp
  have n: "length (strip ''ok'') < 20"
    by (simp add: strip_def py_isspace_def)
  have h: "(\<exists>e. json_loads short_world (strip short_response) = Inl e) \<or>
         (\<exists>d. json_loads short_world (strip short_response) = Inr (JObj d) \<and>
              (fmlookup d ''summary'' = None \<or>
               (\<exists>s. fmlookup d ''summary'' = Some (JStr s) \<and> length (strip s) < 20)))"
    using l k n by blast
  show ?thesis
    using summarize_cluster_rejects [OF r h, of "\<lparr>model_name = DEFAULT_MODEL\<rparr>"] r l k n
    by (simp add: str_int_def char_eval)
qed

text \<open>
  C4. When the response parses to an object whose \<open>summary\<close> is a string of at
  least 20 characters once stripped, the record is marked \<open>ai_summarized\<close>, its
  summary is the response's, and \<open>cluster\<close>, \<open>problem\<close> and \<open>solution\<close> are each the
  response's value when the key is present and the named default when it is absent.
\<close>

theorem summarize_cluster_accepts:
  assumes "ollama_invoke w tr (cluster_prompt cid lns (sample_text lns)) = Inr response"
    and "json_loads w (strip response) = Inr (JObj d)"
    and "fmlookup d ''summary'' = Some (JStr s)"
    and "20 \<le> length (strip s)"
  shows "summarize_cluster w m cid lns tr =
     (Inr \<lparr>cluster = (case fmlookup d ''cluster'' of
                        None \<Rightarrow> JStr (''Cluster '' @ str_int cid) | Some v \<Rightarrow> v),
           summary = JStr s,
           problem = (case fmlookup d ''problem'' of
                        None \<Rightarrow> JStr ''General cluster pattern'' | Some v \<Rightarrow> v),
           solution = (case fmlookup d ''solution'' of
                         None \<Rightarrow> JStr ''Review logs for further investigation.'' | Some v \<Rightarrow> v),
           ai_summarized = True\<rparr>,
      tr @ [Invoke (cluster_prompt cid lns (sample_text lns))])"
  by (simp add: summarize_cluster_unfold assms(1) try_accepted [OF refl assms(2,3,4)])

theorem summarize_cluster_accepts_witness:
  "json_loads partial_world (strip partial_response) =
     Inr (JObj (fmap_of_list [(''summary'', JStr ''Repeated database timeouts on connect'')])) \<and>
   20 \<le> length (strip ''Repeated database timeouts on connect'') \<and>
   fst (summarize_cluster partial_world \<lparr>model_name = DEFAULT_MODEL\<rparr> (- 1) [''db timeout''] []) =
     Inr \<lparr>cluster = JStr ''Cluster -1'',
          summary = JStr ''Repeated database timeouts on connect'',
          problem = JStr ''General cluster pattern'',
          solution = JStr ''Review logs for further investigation.'',
          ai_summarized = True\<rparr>"
proof -
  have r: "ollama_invoke partial_world [] (cluster_prompt (- 1) [''db timeout''] (sample_text [''db timeout'']))
     = Inr partial_response"
    by (simp add: partial_world_def)
  have l: "json_loads partial_world (strip partial_response) =
     Inr (JObj (fmap_of_list [(''summary'', JStr ''Repeated database timeouts on connect'')]))"
    by (simp add: partial_world_def partial_loads_response)
  have k: "fmlookup (fmap_of_list [(''summary'', JStr ''Repeated database timeouts on connect'')]) ''summary''
     = Some (JStr ''Repeated database timeouts on connect'')"
    by simp
  have n: "20 \<le> length (strip ''Repeated database timeouts on connect'')"
    by (simp add: strip_def py_isspace_def)
  show ?thesis
    using summarize_cluster_accepts [OF r l k n, of "\<lparr>model_name = DEFAULT_MODEL\<rparr>"] l n
    by (simp add: str_int_def char_eval)
qed

section \<open>The summarization entry point\<close>

text \<open>
  C5. With AI enhancement disabled, \<open>summarize_clusters\<close> leaves the trace as it
  was: the client is neither constructed nor invoked, whatever the provider would
  do. Every cluster record carries the template fields built from its
  \<open>cluster_id\<close> and \<open>log_count\<close> with \<open>ai_summarized = False\<close>, \<open>alerts\<close> is the
  sentinel and \<open>ai_enhancement_used\<close> is \<open>False\<close>.
\<close>

theorem disabled_makes_no_call:
  assumes "\<not> is_ai_enhancement_enabled (environ w)"
  shows "summarize_clusters w cd tr =
     (Inr \<lparr>alerts = JStr ''No alerts identified'',
           clusters = map (\<lambda>c.
              \<lparr>cluster = JStr (''Cluster '' @ str_int (cluster_id c)),
               summary = JStr (''Cluster '' @ str_int (cluster_id c) @ '' contains ''
                           @ str_int (log_count c) @ '' logs with varied content.''),
               problem = JStr ''General cluster pattern'',
               solution = JStr ''Review logs for further investigation.'',
               ai_summarized = False,
               out_cluster_id = cluster_id c,
               out_log_count = log_count c,
               original_logs = logs c\<rparr>) cd,
           ai_enhancement_used = False,
           ollama_model_used = None,
           ai_error = None\<rparr>,
      tr)"
  using assms by (simp add: summarize_clusters_def basic_summary_def)

theorem disabled_makes_no_call_witness:
  "\<not> is_ai_enhancement_enabled (environ disabled_world) \<and>
   summarize_clusters disabled_world two_clusters [] =
     (Inr \<lparr>alerts = JStr ''No alerts identified'',
           clusters =
             [\<lparr>cluster = JStr ''Cluster -1'',
               summary = JStr ''Cluster -1 contains 1 logs with varied content.'',
               problem = JStr ''General cluster pattern'',
               solution = JStr ''Review logs for further investigation.'',
               ai_summarized = False,
               out_cluster_id = - 1, out_log_count = 1,
               original_logs = [''INFO startup'']\<rparr>,
              \<lparr>cluster = JStr ''Cluster 0'',
               summary = JStr ''Cluster 0 contains 2 logs with varied content.'',
               problem = JStr ''General cluster pattern'',
               solution = JStr ''Review logs for further investigation.'',
               ai_summarized = False,
               out_cluster_id = 0, out_log_count = 2,
               original_logs = [''ERROR db timeout'', ''ERROR db timeout retry'']\<rparr>],
           ai_enhancement_used = False,
           ollama_model_used = None,
           ai_error = None\<rparr>,
      [])"
proof -
  have d: "\<not> is_ai_enhancement_enabled (environ disabled_world)"
    by (simp add: disabled_world_def is_ai_enhancement_enabled_def getenv_def lower_def
        lower_char_def char_eval)
  show ?thesis
    using disabled_makes_no_call [OF d, of two_clusters "[]"] d
    by (simp add: two_clusters_def str_int_def char_eval)
qed

text \<open>
  C6. With AI enhancement enabled and the client constructed, the result is the
  AI-enhanced one. It has one record per cluster, in order, and the record of a
  cluster is what \<open>summarize_cluster\<close> returns for that cluster on the trace of the
  prompts sent before it, a trace that does not depend on how any call ended; when
  the call for the cluster raises, the record is the fallback of that cluster.
  When the insight call raises, \<open>alerts\<close> is the sentinel and the records are the
  same.
\<close>

theorem cluster_failures_are_isolated:
  assumes "is_ai_enhancement_enabled (environ w)" and "ollama_init w DEFAULT_MODEL = None"
  shows "\<exists>r. summarize_clusters w cd tr =
           (Inr r, entry_trace (tr @ [Init DEFAULT_MODEL]) cd
                     @ [Invoke (alerts_prompt (all_logs_text cd))]) \<and>
         ai_enhancement_used r \<and> ollama_model_used r = Some DEFAULT_MODEL \<and> ai_error r = None \<and>
         length (clusters r) = length cd \<and>
         (\<forall>i<length cd.
            (\<exists>s. fst (summarize_cluster w \<lparr>model_name = DEFAULT_MODEL\<rparr> (cluster_id (cd ! i))
                         (logs (cd ! i)) (entry_trace (tr @ [Init DEFAULT_MODEL]) (take i cd))) = Inr s
                 \<and> clusters r ! i = summarized (cd ! i) s) \<and>
            ((\<exists>e. ollama_invoke w (entry_trace (tr @ [Init DEFAULT_MODEL]) (take i cd))
                     (entry_prompt (cd ! i)) = Inl e) \<longrightarrow>
             clusters r ! i =
               summarized (cd ! i) (fallback_summary (cluster_id (cd ! i)) (logs (cd ! i))))) \<and>
         ((\<exists>e. ollama_invoke w (entry_trace (tr @ [Init DEFAULT_MODEL]) cd)
                  (alerts_prompt (all_logs_text cd)) = Inl e) \<longrightarrow>
          alerts r = JStr ''No alerts identified'')"
proof -
  have fail: "cluster_result w cid lns (Inl e) = fallback_summary cid lns" for cid lns e
    by (simp add: cluster_result_def summarize_cluster_try_def)
  show ?thesis
    unfolding summarize_clusters_enabled [OF assms]
    by (auto simp: summarize_cluster_result entry_prompt_def [symmetric] fail alerts_try_def
        simp del: upt_Suc)
qed

theorem cluster_failures_are_isolated_witness:
  "is_ai_enhancement_enabled (environ flaky_world) \<and>
   ollama_init flaky_world DEFAULT_MODEL = None \<and>
   fst (summarize_clusters flaky_world two_clusters []) =
     Inr \<lparr>alerts = JStr ''No alerts identified'',
          clusters =
            [\<lparr>cluster = JStr ''Cluster -1'',
              summary = JStr ''Repeated database timeouts on connect'',
              problem = JStr ''General cluster pattern'',
              solution = JStr ''Review logs for further investigation.'',
              ai_summarized = True,
              out_cluster_id = - 1, out_log_count = 1,
              original_logs = [''INFO startup'']\<rparr>,
             \<lparr>cluster = JStr ''Cluster 0'',
              summary = JStr ''Cluster 0 contains 2 logs with varied content.'',
              problem = JStr ''General cluster pattern'',
              solution = JStr ''Review logs for further investigation.'',
              ai_summarized = False,
              out_cluster_id = 0, out_log_count = 2,
              original_logs = [''ERROR db timeout'', ''ERROR db timeout retry'']\<rparr>],
          ai_enhancement_used = True,
          ollama_model_used = Some ''llama3.2'',
          ai_error = None\<rparr>"
proof -
  have e: "is_ai_enhancement_enabled (environ flaky_world)"
    by (simp add: flaky_world_def enabled_empty_environ)
  have i: "ollama_init flaky_world DEFAULT_MODEL = None"
    by (simp add: flaky_world_def)
  have l: "json_loads flaky_world (strip partial_response) =
     Inr (JObj (fmap_of_list [(''summary'', JStr ''Repeated database timeouts on connect'')]))"
    by (simp add: flaky_world_def partial_loads_response)
  have n: "20 \<le> length (strip ''Repeated database timeouts on connect'')"
    by (simp add: strip_def py_isspace_def)
  have c0: "fst (summarize_cluster flaky_world \<lparr>model_name = DEFAULT_MODEL\<rparr> (- 1) [''INFO startup'']
                  [Init DEFAULT_MODEL]) =
     Inr \<lparr>cluster = JStr ''Cluster -1'',
          summary = JStr ''Repeated database timeouts on connect'',
          problem = JStr ''General cluster pattern'',
          solution = JStr ''Review logs for further investigation.'',
          ai_summarized = True\<rparr>"
  proof -
    have o: "ollama_invoke flaky_world [Init DEFAULT_MODEL] p = Inr partial_response" for p
      by (simp add: flaky_world_def)
    have k: "fmlookup (fmap_of_list [(''summary'', JStr ''Repeated database timeouts on connect'')])
        ''summary'' = Some (JStr ''Repeated database timeouts on connect'')"
      by simp
    show ?thesis
      by (simp add: summarize_cluster_unfold o try_accepted [OF refl l k n] str_int_def char_eval)
  qed
  have inv: "tr \<noteq> [Init DEFAULT_MODEL] \<Longrightarrow>
      ollama_invoke flaky_world tr p = Inl (Exn ''TimeoutError'' ''timed out'')" for tr p
    by (simp add: flaky_world_def)
  from cluster_failures_are_isolated [OF e i, of two_clusters "[]"]
  obtain r where r: "fst (summarize_clusters flaky_world two_clusters []) = Inr r"
    and u: "ai_enhancement_used r" "ollama_model_used r = Some DEFAULT_MODEL" "ai_error r = None"
    and len: "length (clusters r) = length two_clusters"
    and each: "\<And>i. i < length two_clusters \<Longrightarrow>
            (\<exists>s. fst (summarize_cluster flaky_world \<lparr>model_name = DEFAULT_MODEL\<rparr> (cluster_id (two_clusters ! i))
                         (logs (two_clusters ! i)) (entry_trace ([] @ [Init DEFAULT_MODEL]) (take i two_clusters))) = Inr s
                 \<and> clusters r ! i = summarized (two_clusters ! i) s) \<and>
            ((\<exists>e. ollama_invoke flaky_world (entry_trace ([] @ [Init DEFAULT_MODEL]) (take i two_clusters))
                     (entry_prompt (two_clusters ! i)) = Inl e) \<longrightarrow>
             clusters r ! i =
               summarized (two_clusters ! i) (fallback_summary (cluster_id (two_clusters ! i)) (logs (two_clusters ! i))))"
    and al: "(\<exists>e. ollama_invoke flaky_world (entry_trace ([] @ [Init DEFAULT_MODEL]) two_clusters)
                  (alerts_prompt (all_logs_text two_clusters)) = Inl e) \<longrightarrow>
          alerts r = JStr ''No alerts identified''"
    by auto
  have a: "alerts r = JStr ''No alerts identified''"
    using al by (simp add: inv entry_trace_def two_clusters_def)
  have k0: "clusters r ! 0 =
      \<lparr>cluster = JStr ''Cluster -1'',
       summary = JStr ''Repeated database timeouts on connect'',
       problem = JStr ''General cluster pattern'',
       solution = JStr ''Review logs for further investigation.'',
       ai_summarized = True,
       out_cluster_id = - 1, out_log_count = 1,
       original_logs = [''INFO startup'']\<rparr>"
    using each [of 0] c0 by (auto simp: two_clusters_def entry_trace_def summarized_def)
  have k1: "clusters r ! 1 =
      \<lparr>cluster = JStr ''Cluster 0'',
       summary = JStr ''Cluster 0 contains 2 logs with varied content.'',
       problem = JStr ''General cluster pattern'',
       solution = JStr ''Review logs for further investigation.'',
       ai_summarized = False,
       out_cluster_id = 0, out_log_count = 2,
       original_logs = [''ERROR db timeout'', ''ERROR db timeout retry'']\<rparr>"
    using each [of 1]
    by (simp add: inv two_clusters_def entry_trace_def summarized_def fallback_summary_def
        str_int_def char_eval)
  have "clusters r = [clusters r ! 0, clusters r ! 1]"
    using len by (intro nth_equalityI) (auto simp: two_clusters_def less_Suc_eq)
  then have k: "clusters r =
      [\<lparr>cluster = JStr ''Cluster -1'',
        summary = JStr ''Repeated database timeouts on connect'',
        problem = JStr ''General cluster pattern'',
        solution = JStr ''Review logs for further investigation.'',
        ai_summarized = True,
        out_cluster_id = - 1, out_log_count = 1,
        original_logs = [''INFO startup'']\<rparr>,
       \<lparr>cluster = JStr ''Cluster 0'',
        summary = JStr ''Cluster 0 contains 2 logs with varied content.'',
        problem = JStr ''General cluster pattern'',
        solution = JStr ''Review logs for further investigation.'',
        ai_summarized = False,
        out_cluster_id = 0, out_log_count = 2,
        original_logs = [''ERROR db timeout'', ''ERROR db timeout retry'']\<rparr>]"
    by (simp only: k0 k1)
  show ?thesis
    using e i r a k u by (cases r) (simp add: DEFAULT_MODEL_def)
qed

text \<open>
  C1, as amended. \<open>summarize_clusters\<close> never raises, and \<open>alerts\<close> is the parsed
  list exactly when the insight response parses as a non-empty JSON array whose
  elements are all objects with the keys \<open>log\<close>, \<open>explanation\<close> and \<open>suggestions\<close>;
  in every other case (provider or parse error, any other shape, enhancement
  disabled, client not constructed) it is the string \<open>No alerts identified\<close>.
\<close>

theorem alerts_are_validated_or_sentinel:
  "\<exists>r. fst (summarize_clusters w cd tr) = Inr r \<and>
     alerts r =
       (if is_ai_enhancement_enabled (environ w) \<and> ollama_init w DEFAULT_MODEL = None then
          (case ollama_invoke w (entry_trace (tr @ [Init DEFAULT_MODEL]) cd)
                  (alerts_prompt (all_logs_text cd)) of
             Inl e \<Rightarrow> JStr ''No alerts identified''
           | Inr response \<Rightarrow>
               (case json_loads w (strip response) of
                  Inl e \<Rightarrow> JStr ''No alerts identified''
                | Inr v \<Rightarrow>
                    if \<exists>xs. v = JArr xs \<and> xs \<noteq> [] \<and>
                         (\<forall>a\<in>set xs. \<exists>d. a = JObj d \<and> ''log'' |\<in>| fmdom d \<and>
                             ''explanation'' |\<in>| fmdom d \<and> ''suggestions'' |\<in>| fmdom d)
                    then v else JStr ''No alerts identified''))
        else JStr ''No alerts identified'')"
proof (cases "is_ai_enhancement_enabled (environ w)")
  case False
  then show ?thesis by (simp add: summarize_clusters_def)
next
  case en: True
  show ?thesis
  proof (cases "ollama_init w DEFAULT_MODEL")
    case None
    show ?thesis
      unfolding summarize_clusters_enabled [OF en None]
      by (simp add: en None alerts_try_def alerts_valid_iff [symmetric] split: sum.split)
  next
    case (Some e)
    show ?thesis
      unfolding summarize_clusters_init_fails [OF en Some]
      by (simp add: Some)
  qed
qed

theorem alerts_are_validated_or_sentinel_witness:
  "fst (summarize_clusters plural_world [] []) =
     Inr \<lparr>alerts = JArr [JObj (fmap_of_list
                       [(''log'', JStr ''ERROR db timeout''),
                        (''explanation'', JStr ''database unreachable''),
                        (''suggestions'', JStr ''check the database'')])],
          clusters = [],
          ai_enhancement_used = True,
          ollama_model_used = Some ''llama3.2'',
          ai_error = None\<rparr>"
proof -
  have s: "strip plural_response = plural_response"
    by (simp add: plural_response_def strip_def py_isspace_def)
  have e: "is_ai_enhancement_enabled (environ plural_world)"
    by (simp add: plural_world_def enabled_empty_environ)
  have i: "ollama_init plural_world DEFAULT_MODEL = None"
    by (simp add: plural_world_def)
  have o: "ollama_invoke plural_world tr p = Inr plural_response" for tr p
    by (simp add: plural_world_def)
  have l: "json_loads plural_world plural_response =
      Inr (JArr [JObj (fmap_of_list
                       [(''log'', JStr ''ERROR db timeout''),
                        (''explanation'', JStr ''database unreachable''),
                        (''suggestions'', JStr ''check the database'')])])"
    by (simp add: plural_world_def)
  from alerts_are_validated_or_sentinel [of plural_world "[]" "[]"]
  obtain r where r: "fst (summarize_clusters plural_world [] []) = Inr r"
    and a: "alerts r = JArr [JObj (fmap_of_list
                       [(''log'', JStr ''ERROR db timeout''),
                        (''explanation'', JStr ''database unreachable''),
                        (''suggestions'', JStr ''check the database'')])]"
    by (auto simp: e i o s l)
  have "fst (summarize_clusters plural_world [] []) =
      Inr \<lparr>alerts = alerts r, clusters = [], ai_enhancement_used = True,
           ollama_model_used = Some ''llama3.2'', ai_error = None\<rparr>"
    using r by (auto simp: summarize_clusters_enabled [OF e i] DEFAULT_MODEL_def)
  then show ?thesis by (simp only: a)
qed

text \<open>
  C1 as stated fails: a non-empty array of objects with the keys \<open>log\<close>,
  \<open>explanation\<close> and \<open>suggestion\<close> is replaced by the sentinel, and the sentinel
  begins with a capital letter.
\<close>

theorem alerts_singular_key_counterexample:
  "json_loads singular_world (strip singular_response) =
     Inr (JArr [JObj (fmap_of_list
                  [(''log'', JStr ''ERROR db timeout''),
                   (''explanation'', JStr ''database unreachable''),
                   (''suggestion'', JStr ''check the database'')])]) \<and>
   fst (summarize_clusters singular_world [] []) =
     Inr \<lparr>alerts = JStr ''No alerts identified'',
          clusters = [],
          ai_enhancement_used = True,
          ollama_model_used = Some ''llama3.2'',
          ai_error = None\<rparr> \<and>
   JStr ''No alerts identified'' \<noteq> JStr ''no alerts identified''"
proof -
  have s: "strip singular_response = singular_response"
    by (simp add: singular_response_def strip_def py_isspace_def)
  have e: "is_ai_enhancement_enabled (environ singular_world)"
    by (simp add: singular_world_def enabled_empty_environ)
  have i: "ollama_init singular_world DEFAULT_MODEL = None"
    by (simp add: singular_world_def)
  have o: "ollama_invoke singular_world tr p = Inr singular_response" for tr p
    by (simp add: singular_world_def)
  have l: "json_loads singular_world singular_response =
      Inr (JArr [JObj (fmap_of_list
                  [(''log'', JStr ''ERROR db timeout''),
                   (''explanation'', JStr ''database unreachable''),
                   (''suggestion'', JStr ''check the database'')])])"
    by (simp add: singular_world_def)
  show ?thesis
    by (simp add: summarize_clusters_enabled [OF e i] o s l alerts_try_def DEFAULT_MODEL_def)
qed

end
